theory Spec2Isabelle
  imports Complex_Main
begin

section \<open>The training loop of train.py\<close>

text \<open>
  The file train.py holds three functions: \<open>train\<close> (the driver over the epochs),
  \<open>train_epoch\<close> (one pass over the training batches, with a parameter update per batch)
  and \<open>validate_epoch\<close> (one pass over the held-out batches, without updates).

  Python floats are modelled by \<^typ>\<open>real\<close>: rounding, infinities and NaN are outside
  the model. Python exceptions are values of \<open>py_error\<close>; a function that may raise
  returns \<open>py_error + 'a\<close>, with \<open>Inl\<close> for the exception. A function that changes the
  model, the optimizer or the metric log takes the \<open>world\<close> and returns it updated, also
  when it raises.
\<close>

subsection \<open>Exceptions and the operations of Python that raise them\<close>

datatype py_error = ZeroDivisionError | IndexError | RuntimeError | Raised string

text \<open>\<open>x / n\<close> for a float \<open>x\<close> and an integer \<open>n = len(...)\<close>.\<close>

definition py_truediv :: "real \<Rightarrow> nat \<Rightarrow> py_error + real" where
  "py_truediv x n = (if n = 0 then Inl ZeroDivisionError else Inr (x / real n))"

text \<open>\<open>xs[i]\<close> for a list and an index \<open>i \<ge> 0\<close>.\<close>

definition py_index :: "'a list \<Rightarrow> nat \<Rightarrow> py_error + 'a" where
  "py_index xs i = (if i < length xs then Inr (xs ! i) else Inl IndexError)"

subsection \<open>Tensors of class indices\<close>

text \<open>
  The targets of a batch and the predictions \<open>torch.argmax(output, 1)\<close> are one-dimensional
  integer tensors, here \<^typ>\<open>int list\<close>.

  \<open>(prediction == target).sum().item()\<close> compares elementwise and counts the positions that
  agree: for two tensors of one length, the number \<open>correct\<close> of examples whose predicted
  class is the target. Two tensors of different lengths are broadcast when one of them has
  length 1, and raise otherwise.
\<close>

definition correct :: "int list \<Rightarrow> int list \<Rightarrow> nat" where
  "correct prediction target = length (filter (\<lambda>(p, t). p = t) (zip prediction target))"

definition eq_sum :: "int list \<Rightarrow> int list \<Rightarrow> py_error + nat" where
  "eq_sum prediction target =
     (if length prediction = length target
        then Inr (correct prediction target)
      else if length target = 1
        then Inr (length (filter (\<lambda>p. p = hd target) prediction))
      else if length prediction = 1
        then Inr (length (filter (\<lambda>t. hd prediction = t) target))
      else Inl RuntimeError)"

text \<open>
  \<open>(prediction == target).sum().item()/len(prediction)\<close>: an integer divided by an integer,
  which raises on an empty prediction.
\<close>

definition batch_accuracy :: "int list \<Rightarrow> int list \<Rightarrow> py_error + real" where
  "batch_accuracy prediction target =
     (case eq_sum prediction target of
        Inl e \<Rightarrow> Inl e
      | Inr c \<Rightarrow> py_truediv (real c) (length prediction))"

subsection \<open>The collaborators\<close>

text \<open>
  \<open>model\<close>, \<open>loss_fn\<close>, \<open>optimizer\<close> and \<open>device\<close> are arguments of the three functions, and
  \<open>torch.argmax\<close> and \<open>Tensor.to\<close> belong to the framework. Their behaviour is a parameter
  of the development, the record \<open>torch\<close>:
  \<^item> \<open>forward p m x\<close> is \<open>model(x)\<close> for the parameters \<open>p\<close> and the mode flag \<open>m\<close>
    (\<open>model.training\<close>): the model is a function from a batch of inputs to an output
    tensor, which reads the parameters and the mode;
  \<^item> \<open>loss_fn out t\<close> is the loss object, \<open>item\<close> its scalar value, \<open>backward\<close> the
    gradient computation \<open>loss.backward()\<close>, which writes the gradient buffers;
  \<^item> \<open>zero_grad\<close> and \<open>step\<close> are the optimizer's methods; \<open>step\<close> is the only
    operation that returns new parameters;
  \<^item> \<open>tensor_to d\<close> is \<open>None\<close> when a tensor can be moved to the device \<open>d\<close> (the tensor
    keeps its contents) and the exception otherwise.
  Each call may raise. The type \<open>'o\<close> is the state of the optimizer together with the
  gradient buffers of the parameters it tracks.
\<close>

record ('x, 'out, 'l, 'p, 'o, 'd) torch =
  forward :: "'p \<Rightarrow> bool \<Rightarrow> 'x \<Rightarrow> py_error + 'out"
  loss_fn :: "'out \<Rightarrow> int list \<Rightarrow> py_error + 'l"
  item :: "'l \<Rightarrow> real"
  backward :: "'l \<Rightarrow> 'o \<Rightarrow> py_error + 'o"
  zero_grad :: "'o \<Rightarrow> py_error + 'o"
  step :: "'o \<Rightarrow> 'p \<Rightarrow> py_error + ('o \<times> 'p)"
  argmax :: "'out \<Rightarrow> py_error + int list"
  tensor_to :: "'d \<Rightarrow> py_error option"

text \<open>
  The mutable state: the model's parameters and mode flag, the optimizer, the global
  gradient mode of the framework, and the sequence of dictionaries passed to \<open>wandb.log\<close>.
  Console output (\<open>print\<close>, the progress bars of \<open>tqdm\<close>) is left out.
\<close>

record ('p, 'o) world =
  params :: 'p
  training :: bool
  optimizer :: 'o
  grad_enabled :: bool
  wandb_log :: "(string \<times> real) list list"

text \<open>
  A batch is a pair \<open>(wav, target)\<close>; a dataloader is the sequence of batches that one pass
  over it yields, and \<open>len(dataloader)\<close> is the length of that sequence. Every pass yields
  the same sequence: a loader that shuffles, and so yields another order on each pass, is
  outside the model.
\<close>

type_synonym 'x batch = "'x \<times> int list"

type_synonym 'x dataloader = "'x batch list"

subsection \<open>train_epoch\<close>

text \<open>
  The body of the loop of \<open>train_epoch\<close> for one batch. It returns the batch's
  contributions \<open>(loss.item(), accuracy fraction)\<close> to the two sums. A call that raises
  leaves the world as the calls before it left it. \<open>model.train()\<close>, \<open>model.eval()\<close> and
  \<open>wandb.log\<close> are taken not to raise.
\<close>

definition train_step ::
  "('x, 'out, 'l, 'p, 'o, 'd) torch \<Rightarrow> 'd \<Rightarrow> 'x batch \<Rightarrow> ('p, 'o) world
     \<Rightarrow> (py_error + real \<times> real) \<times> ('p, 'o) world" where
  "train_step env device b w =
     (case b of (wav, target) \<Rightarrow>
     (case tensor_to env device of Some e \<Rightarrow> (Inl e, w) | None \<Rightarrow>
     (case forward env (params w) (training w) wav of Inl e \<Rightarrow> (Inl e, w) | Inr output \<Rightarrow>
     (case loss_fn env output target of Inl e \<Rightarrow> (Inl e, w) | Inr loss \<Rightarrow>
     (case zero_grad env (optimizer w) of Inl e \<Rightarrow> (Inl e, w) | Inr o1 \<Rightarrow>
     (case backward env loss o1 of Inl e \<Rightarrow> (Inl e, w\<lparr>optimizer := o1\<rparr>) | Inr o2 \<Rightarrow>
     (case step env o2 (params w) of Inl e \<Rightarrow> (Inl e, w\<lparr>optimizer := o2\<rparr>) | Inr (o3, p3) \<Rightarrow>
     (let w3 = w\<lparr>optimizer := o3, params := p3\<rparr> in
     (case argmax env output of Inl e \<Rightarrow> (Inl e, w3) | Inr prediction \<Rightarrow>
     (case batch_accuracy prediction target of Inl e \<Rightarrow> (Inl e, w3) | Inr fr \<Rightarrow>
        (Inr (item env loss, fr), w3)))))))))))"

text \<open>
  The loop over the batches, with the local variables \<open>(train_loss, train_acc, total)\<close> as
  accumulator. An exception ends the loop and the accumulator is lost.
\<close>

fun train_batches ::
  "('x, 'out, 'l, 'p, 'o, 'd) torch \<Rightarrow> 'd \<Rightarrow> 'x batch list \<Rightarrow> real \<times> real \<times> real
     \<Rightarrow> ('p, 'o) world \<Rightarrow> (py_error + real \<times> real \<times> real) \<times> ('p, 'o) world" where
  "train_batches env device [] acc w = (Inr acc, w)"
| "train_batches env device (b # bs) (train_loss, train_acc, total') w =
     (case train_step env device b w of
        (Inl e, w') \<Rightarrow> (Inl e, w')
      | (Inr (l, f), w') \<Rightarrow>
          train_batches env device bs (train_loss + l, train_acc + f, total' + 1) w')"

definition train_epoch ::
  "('x, 'out, 'l, 'p, 'o, 'd) torch \<Rightarrow> 'x dataloader \<Rightarrow> 'd \<Rightarrow> ('p, 'o) world
     \<Rightarrow> (py_error + real \<times> real) \<times> ('p, 'o) world" where
  "train_epoch env train_dataloader device w =
     (case train_batches env device train_dataloader (0, 0, 0) (w\<lparr>training := True\<rparr>) of
        (Inl e, w') \<Rightarrow> (Inl e, w')
      | (Inr (train_loss, train_acc, total'), w') \<Rightarrow> (Inr (train_loss, train_acc), w'))"

subsection \<open>validate_epoch\<close>

definition validate_step ::
  "('x, 'out, 'l, 'p, 'o, 'd) torch \<Rightarrow> 'd \<Rightarrow> 'x batch \<Rightarrow> ('p, 'o) world
     \<Rightarrow> py_error + real \<times> real" where
  "validate_step env device b w =
     (case b of (wav, target) \<Rightarrow>
     (case tensor_to env device of Some e \<Rightarrow> Inl e | None \<Rightarrow>
     (case forward env (params w) (training w) wav of Inl e \<Rightarrow> Inl e | Inr output \<Rightarrow>
     (case loss_fn env output target of Inl e \<Rightarrow> Inl e | Inr loss \<Rightarrow>
     (case argmax env output of Inl e \<Rightarrow> Inl e | Inr prediction \<Rightarrow>
     (case batch_accuracy prediction target of Inl e \<Rightarrow> Inl e | Inr fr \<Rightarrow>
        Inr (item env loss, fr)))))))"

fun validate_batches ::
  "('x, 'out, 'l, 'p, 'o, 'd) torch \<Rightarrow> 'd \<Rightarrow> 'x batch list \<Rightarrow> real \<times> real \<times> real
     \<Rightarrow> ('p, 'o) world \<Rightarrow> py_error + real \<times> real \<times> real" where
  "validate_batches env device [] acc w = Inr acc"
| "validate_batches env device (b # bs) (test_loss, test_acc, total') w =
     (case validate_step env device b w of
        Inl e \<Rightarrow> Inl e
      | Inr (l, f) \<Rightarrow>
          validate_batches env device bs (test_loss + l, test_acc + f, total' + 1) w)"

text \<open>
  \<open>with torch.no_grad()\<close> switches the gradient mode off for the loop and puts the
  previous mode back when the block is left, by return or by exception.
\<close>

definition validate_epoch ::
  "('x, 'out, 'l, 'p, 'o, 'd) torch \<Rightarrow> 'x dataloader \<Rightarrow> 'd \<Rightarrow> ('p, 'o) world
     \<Rightarrow> (py_error + real \<times> real) \<times> ('p, 'o) world" where
  "validate_epoch env test_dataloader device w =
     (let w0 = w\<lparr>training := False\<rparr>;
          prev = grad_enabled w0;
          w1 = w0\<lparr>grad_enabled := False\<rparr>;
          r = validate_batches env device test_dataloader (0, 0, 0) w1;
          w2 = w1\<lparr>grad_enabled := prev\<rparr>
      in case r of
           Inl e \<Rightarrow> (Inl e, w2)
         | Inr (test_loss, test_acc, total') \<Rightarrow> (Inr (test_loss, test_acc), w2))"

subsection \<open>train\<close>

text \<open>The four lists that \<open>train\<close> builds.\<close>

record history =
  training_acc :: "real list"
  training_loss :: "real list"
  testing_acc :: "real list"
  testing_loss :: "real list"

definition empty_history :: history where
  "empty_history = \<lparr>training_acc = [], training_loss = [], testing_acc = [], testing_loss = []\<rparr>"

text \<open>
  \<open>if test_dataloader:\<close> is the truth value of the argument: \<open>None\<close> is false, and a
  dataloader is true when its length is not zero.
\<close>

definition truthy :: "'x dataloader option \<Rightarrow> bool" where
  "truthy test_dataloader =
     (case test_dataloader of None \<Rightarrow> False | Some d \<Rightarrow> length d \<noteq> 0)"

text \<open>
  The body of the loop of \<open>train\<close> for the epoch \<open>i\<close>, in its two parts. The state is
  the four lists and the world; on an exception it is the state at the point where the
  exception was raised.

  The first part trains, appends the training metrics and logs them. The values logged are
  read back from the lists at index \<open>i\<close>.
\<close>

definition training_part ::
  "('x, 'out, 'l, 'p, 'o, 'd) torch \<Rightarrow> 'x dataloader \<Rightarrow> 'd \<Rightarrow> nat
     \<Rightarrow> history \<times> ('p, 'o) world \<Rightarrow> (py_error + unit) \<times> history \<times> ('p, 'o) world" where
  "training_part env train_dataloader device i s =
     (case s of (h, w) \<Rightarrow>
     (case train_epoch env train_dataloader device w of
        (Inl e, w1) \<Rightarrow> (Inl e, h, w1)
      | (Inr (train_epoch_loss, train_epoch_acc), w1) \<Rightarrow>
     (case py_truediv train_epoch_loss (length train_dataloader) of
        Inl e \<Rightarrow> (Inl e, h, w1)
      | Inr l \<Rightarrow>
     (let h1 = h\<lparr>training_loss := training_loss h @ [l]\<rparr> in
     (case py_truediv train_epoch_acc (length train_dataloader) of
        Inl e \<Rightarrow> (Inl e, h1, w1)
      | Inr a \<Rightarrow>
     (let h2 = h1\<lparr>training_acc := training_acc h1 @ [a]\<rparr> in
     (case py_index (training_loss h2) i of Inl e \<Rightarrow> (Inl e, h2, w1) | Inr li \<Rightarrow>
     (case py_index (training_acc h2) i of Inl e \<Rightarrow> (Inl e, h2, w1) | Inr ai \<Rightarrow>
        (Inr (), h2,
         w1\<lparr>wandb_log :=
               wandb_log w1 @ [[(''training_loss'', li), (''training_acc'', ai)]]\<rparr>)))))))))"

text \<open>The second part, the block under \<open>if test_dataloader:\<close>.\<close>

definition testing_part ::
  "('x, 'out, 'l, 'p, 'o, 'd) torch \<Rightarrow> 'x dataloader \<Rightarrow> 'd \<Rightarrow> nat
     \<Rightarrow> history \<times> ('p, 'o) world \<Rightarrow> (py_error + unit) \<times> history \<times> ('p, 'o) world" where
  "testing_part env test_dataloader device i s =
     (case s of (h, w) \<Rightarrow>
     (case validate_epoch env test_dataloader device w of
        (Inl e, w1) \<Rightarrow> (Inl e, h, w1)
      | (Inr (test_epoch_loss, test_epoch_acc), w1) \<Rightarrow>
     (case py_truediv test_epoch_loss (length test_dataloader) of
        Inl e \<Rightarrow> (Inl e, h, w1)
      | Inr l \<Rightarrow>
     (let h1 = h\<lparr>testing_loss := testing_loss h @ [l]\<rparr> in
     (case py_truediv test_epoch_acc (length test_dataloader) of
        Inl e \<Rightarrow> (Inl e, h1, w1)
      | Inr a \<Rightarrow>
     (let h2 = h1\<lparr>testing_acc := testing_acc h1 @ [a]\<rparr> in
     (case py_index (testing_loss h2) i of Inl e \<Rightarrow> (Inl e, h2, w1) | Inr li \<Rightarrow>
     (case py_index (testing_acc h2) i of Inl e \<Rightarrow> (Inl e, h2, w1) | Inr ai \<Rightarrow>
        (Inr (), h2,
         w1\<lparr>wandb_log :=
               wandb_log w1 @ [[(''testing_loss'', li), (''testing_acc'', ai)]]\<rparr>)))))))))"

definition epoch_body ::
  "('x, 'out, 'l, 'p, 'o, 'd) torch \<Rightarrow> 'x dataloader \<Rightarrow> 'd \<Rightarrow> 'x dataloader option \<Rightarrow> nat
     \<Rightarrow> history \<times> ('p, 'o) world \<Rightarrow> (py_error + unit) \<times> history \<times> ('p, 'o) world" where
  "epoch_body env train_dataloader device test_dataloader i s =
     (case training_part env train_dataloader device i s of
        (Inl e, s1) \<Rightarrow> (Inl e, s1)
      | (Inr u, s1) \<Rightarrow>
          (case test_dataloader of
             None \<Rightarrow> (Inr (), s1)
           | Some test_dl \<Rightarrow>
               if truthy test_dataloader then testing_part env test_dl device i s1
               else (Inr (), s1)))"

text \<open>\<open>for i in range(epochs)\<close>, over the list of the indices.\<close>

fun train_loop ::
  "('x, 'out, 'l, 'p, 'o, 'd) torch \<Rightarrow> 'x dataloader \<Rightarrow> 'd \<Rightarrow> 'x dataloader option
     \<Rightarrow> nat list \<Rightarrow> history \<times> ('p, 'o) world
     \<Rightarrow> (py_error + unit) \<times> history \<times> ('p, 'o) world" where
  "train_loop env train_dataloader device test_dataloader [] s = (Inr (), s)"
| "train_loop env train_dataloader device test_dataloader (i # is) s =
     (case epoch_body env train_dataloader device test_dataloader i s of
        (Inl e, s') \<Rightarrow> (Inl e, s')
      | (Inr u, s') \<Rightarrow> train_loop env train_dataloader device test_dataloader is s')"

text \<open>
  \<open>train\<close> returns the tuple \<open>training_acc, training_loss, testing_acc, testing_loss\<close>.
  \<open>range(epochs)\<close> is empty for \<open>epochs \<le> 0\<close>.
\<close>

definition train ::
  "('x, 'out, 'l, 'p, 'o, 'd) torch \<Rightarrow> 'x dataloader \<Rightarrow> 'd \<Rightarrow> int \<Rightarrow> 'x dataloader option
     \<Rightarrow> ('p, 'o) world
     \<Rightarrow> (py_error + real list \<times> real list \<times> real list \<times> real list) \<times> ('p, 'o) world" where
  "train env train_dataloader device epochs test_dataloader w =
     (case train_loop env train_dataloader device test_dataloader [0..<nat epochs]
             (empty_history, w) of
        (Inl e, h, w') \<Rightarrow> (Inl e, w')
      | (Inr u, h, w') \<Rightarrow>
          (Inr (training_acc h, training_loss h, testing_acc h, testing_loss h), w'))"

subsection \<open>What a run emits, read off the returned series\<close>

text \<open>
  The dictionaries that a run passes to \<open>wandb.log\<close>, rebuilt from the four series in the
  order in which \<open>train\<close> returns them: for each epoch the training entry, followed by the
  testing entry when the testing series have one.
\<close>

fun emissions ::
  "real list \<Rightarrow> real list \<Rightarrow> real list \<Rightarrow> real list \<Rightarrow> (string \<times> real) list list" where
  "emissions (a # acc) (l # loss) (va # vacc) (vl # vloss) =
     [(''training_loss'', l), (''training_acc'', a)] #
     [(''testing_loss'', vl), (''testing_acc'', va)] # emissions acc loss vacc vloss"
| "emissions (a # acc) (l # loss) [] [] =
     [(''training_loss'', l), (''training_acc'', a)] # emissions acc loss [] []"
| "emissions acc loss vacc vloss = []"

text \<open>The logged dictionaries that hold a testing key.\<close>

definition testing_entries :: "(string \<times> real) list list \<Rightarrow> (string \<times> real) list list" where
  "testing_entries entries =
     filter (\<lambda>d. ''testing_loss'' \<in> set (map fst d) \<or> ''testing_acc'' \<in> set (map fst d))
       entries"

subsection \<open>The predictions of a pass and their accuracy fractions\<close>

text \<open>
  \<open>torch.argmax(model(wav), 1)\<close> at the parameters \<open>p\<close> and the mode \<open>m\<close>; the empty tensor
  stands in where a call raises.
\<close>

definition prediction ::
  "('x, 'out, 'l, 'p, 'o, 'd) torch \<Rightarrow> 'p \<Rightarrow> bool \<Rightarrow> 'x \<Rightarrow> int list" where
  "prediction env p m wav =
     (case forward env p m wav of
        Inl e \<Rightarrow> []
      | Inr output \<Rightarrow> (case argmax env output of Inl e \<Rightarrow> [] | Inr pr \<Rightarrow> pr))"





subsection \<open>The return value and the testing series as the specification words them\<close>

text \<open>
  The specification lists the series of the run history in the order training loss,
  training accuracy, testing loss, testing accuracy.
\<close>

definition spec_run_history ::
  "history \<Rightarrow> real list \<times> real list \<times> real list \<times> real list" where
  "spec_run_history h = (training_loss h, training_acc h, testing_loss h, testing_acc h)"

text \<open>
  The specification's sentence on the testing series: they have an entry for each of the
  epochs when validation data was supplied, and none otherwise.
\<close>

definition spec_testing_series ::
  "int \<Rightarrow> 'x dataloader option \<Rightarrow> real list \<times> real list \<times> real list \<times> real list
     \<Rightarrow> bool" where
  "spec_testing_series epochs test_dataloader r =
     (case r of (acc, loss, vacc, vloss) \<Rightarrow>
        length vacc = (if test_dataloader \<noteq> None then nat epochs else 0) \<and>
        length vloss = (if test_dataloader \<noteq> None then nat epochs else 0))"

subsection \<open>A concrete set of collaborators\<close>

text \<open>
  A test double for the collaborators, used to run the functions on concrete inputs. The
  input of a batch carries a loss value and the predicted classes; the model hands them
  on and raises on a negative loss value. The parameters and the optimizer state are
  integers: \<open>backward\<close> counts the gradient computations since the last \<open>zero_grad\<close>, and
  \<open>step\<close> adds that count to the parameters.
\<close>

definition replay :: "(real \<times> int list, real \<times> int list, real, int, int, unit) torch" where
  "replay =
     \<lparr>forward = (\<lambda>p m x. if fst x < 0 then Inl (Raised ''forward'') else Inr x),
      loss_fn = (\<lambda>out t. Inr (fst out)),
      item = (\<lambda>l. l),
      backward = (\<lambda>l g. Inr (g + 1)),
      zero_grad = (\<lambda>g. Inr 0),
      step = (\<lambda>g p. Inr (g, p + g)),
      argmax = (\<lambda>out. Inr (snd out)),
      tensor_to = (\<lambda>d. None)\<rparr>"

text \<open>
  Four batches of two examples with the losses 1, 2, 3, 4 and with 2, 1, 1, 0 correct
  predictions.
\<close>

definition scenario :: "(real \<times> int list) dataloader" where
  "scenario = [((1, [0, 0]), [0, 0]), ((2, [0, 1]), [0, 0]),
               ((3, [1, 0]), [0, 0]), ((4, [1, 1]), [0, 0])]"

text \<open>A model as constructed (in training mode), with nothing logged.\<close>

definition fresh :: "(int, int) world" where
  "fresh = \<lparr>params = 0, training = True, optimizer = 0, grad_enabled = True, wandb_log = []\<rparr>"

text \<open>
  The same collaborators with an optimizer whose \<open>step\<close> raises once the parameters have
  reached 5, and a dataloader whose second batch makes the model raise.
\<close>

definition fragile :: "(real \<times> int list, real \<times> int list, real, int, int, unit) torch" where
  "fragile = replay\<lparr>step := (\<lambda>g p. if 5 \<le> p then Inl (Raised ''step'') else Inr (g, p + g))\<rparr>"

definition flawed :: "(real \<times> int list) dataloader" where
  "flawed = [((1, [0, 0]), [0, 0]), ((- 1, [0, 0]), [0, 0]), ((3, [1, 0]), [0, 0])]"

section \<open>Properties\<close>

subsection \<open>What the functions leave unchanged\<close>

lemma train_step_frame:
  "train_step env device b w = (r, w') \<Longrightarrow>
     training w' = training w \<and> grad_enabled w' = grad_enabled w \<and> wandb_log w' = wandb_log w"
  by (auto simp: train_step_def Let_def split: prod.splits option.splits sum.splits)

lemma train_batches_frame:
  "train_batches env device bs acc w = (r, w') \<Longrightarrow>
     training w' = training w \<and> grad_enabled w' = grad_enabled w \<and> wandb_log w' = wandb_log w"
proof (induction bs arbitrary: acc w)
  case Nil
  then show ?case by simp
next
  case (Cons b bs)
  obtain sl sa sn where acc: "acc = (sl, sa, sn)" by (cases acc) auto
  show ?case
  proof (cases "train_step env device b w")
    case (Pair r1 w1)
    note fr = train_step_frame [OF Pair]
    show ?thesis
    proof (cases r1)
      case (Inl e)
      with Cons.prems Pair acc fr show ?thesis by auto
    next
      case (Inr lf)
      obtain l f where lf: "lf = (l, f)" by (cases lf) auto
      from Cons.prems Pair acc Inr lf
      have "train_batches env device bs (sl + l, sa + f, sn + 1) w1 = (r, w')" by simp
      from Cons.IH [OF this] fr show ?thesis by simp
    qed
  qed
qed

lemma train_epoch_frame:
  "train_epoch env dl device w = (r, w') \<Longrightarrow>
     training w' = True \<and> grad_enabled w' = grad_enabled w \<and> wandb_log w' = wandb_log w"
  by (auto simp: train_epoch_def split: prod.splits sum.splits dest!: train_batches_frame)

lemma validate_epoch_world:
  "snd (validate_epoch env dl device w) = w\<lparr>training := False\<rparr>"
  by (simp add: validate_epoch_def Let_def split: sum.splits prod.splits)

subsection \<open>The scenario of four batches\<close>


lemma replay_step:
  "0 \<le> l \<Longrightarrow>
     train_step replay () ((l, p), t) w =
       (case batch_accuracy p t of
          Inl e \<Rightarrow> (Inl e, w\<lparr>optimizer := 1, params := params w + 1\<rparr>)
        | Inr f \<Rightarrow> (Inr (l, f), w\<lparr>optimizer := 1, params := params w + 1\<rparr>))"
  by (simp add: train_step_def replay_def Let_def split: sum.splits)

lemma scenario_accuracies:
  "batch_accuracy [0, 0] [0, 0] = Inr 1" "batch_accuracy [0, 1] [0, 0] = Inr (1 / 2)"
  "batch_accuracy [1, 0] [0, 0] = Inr (1 / 2)" "batch_accuracy [1, 1] [0, 0] = Inr 0"
  by (simp_all add: batch_accuracy_def eq_sum_def correct_def py_truediv_def)



lemma replay_validate_step:
  "0 \<le> l \<Longrightarrow>
     validate_step replay () ((l, p), t) w =
       (case batch_accuracy p t of Inl e \<Rightarrow> Inl e | Inr f \<Rightarrow> Inr (l, f))"
  by (simp add: validate_step_def replay_def split: sum.splits)

lemma replay_validate_scenario:
  "validate_epoch replay scenario () w = (Inr (10, 2), w\<lparr>training := False\<rparr>)"
  by (simp add: validate_epoch_def Let_def scenario_def replay_validate_step
        scenario_accuracies)

lemma replay_train_scenario:
  "train_epoch replay scenario () w =
     (Inr (10, 2), w\<lparr>training := True, optimizer := 1, params := params w + 4\<rparr>)"
  by (simp add: train_epoch_def scenario_def replay_step scenario_accuracies)

lemma scenario_length: "length scenario = 4"
  by (simp add: scenario_def)

lemma replay_run_without_validation:
  "train replay scenario () 1 None fresh =
      (Inr ([1 / 2], [5 / 2], [], []),
       \<lparr>params = 4, training = True, optimizer = 1, grad_enabled = True,
        wandb_log = [[(''training_loss'', 5 / 2), (''training_acc'', 1 / 2)]]\<rparr>)"
  by (simp add: train_def epoch_body_def training_part_def replay_train_scenario
        py_truediv_def py_index_def empty_history_def fresh_def scenario_length)

subsection \<open>The loop of train\<close>

lemma py_index_last: "length xs = i \<Longrightarrow> py_index (xs @ [x]) i = Inr x"
  by (auto simp: py_index_def)

lemma training_part_Inr:
  assumes "training_part env dl device i (h, w) = (Inr u, h', w')"
    and "length (training_loss h) = i" and "length (training_acc h) = i"
  shows "\<exists>l a w1. train_epoch env dl device w = (Inr (l, a), w1) \<and> dl \<noteq> [] \<and>
           h' = h\<lparr>training_loss := training_loss h @ [l / real (length dl)],
                   training_acc := training_acc h @ [a / real (length dl)]\<rparr> \<and>
           w' = w1\<lparr>wandb_log := wandb_log w1 @
                  [[(''training_loss'', l / real (length dl)),
                    (''training_acc'', a / real (length dl))]]\<rparr>"
  using assms
  by (auto simp: training_part_def Let_def py_truediv_def py_index_last
           split: prod.splits sum.splits if_splits)

lemma testing_part_Inr:
  assumes "testing_part env dl device i (h, w) = (Inr u, h', w')"
    and "length (testing_loss h) = i" and "length (testing_acc h) = i"
  shows "\<exists>l a w1. validate_epoch env dl device w = (Inr (l, a), w1) \<and> dl \<noteq> [] \<and>
           h' = h\<lparr>testing_loss := testing_loss h @ [l / real (length dl)],
                   testing_acc := testing_acc h @ [a / real (length dl)]\<rparr> \<and>
           w' = w1\<lparr>wandb_log := wandb_log w1 @
                  [[(''testing_loss'', l / real (length dl)),
                    (''testing_acc'', a / real (length dl))]]\<rparr>"
  using assms
  by (auto simp: testing_part_def Let_def py_truediv_def py_index_last
           split: prod.splits sum.splits if_splits)


lemma epoch_body_Inr:
  assumes "epoch_body env dl device tdl i (h, w) = (Inr u, h', w')"
    and "length (training_loss h) = i" and "length (training_acc h) = i"
    and "truthy tdl \<Longrightarrow> length (testing_loss h) = i \<and> length (testing_acc h) = i"
  shows "\<exists>l a. training_loss h' = training_loss h @ [l] \<and>
           training_acc h' = training_acc h @ [a] \<and>
           (if truthy tdl
            then \<exists>vl va. testing_loss h' = testing_loss h @ [vl] \<and>
                   testing_acc h' = testing_acc h @ [va] \<and>
                   wandb_log w' = wandb_log w @
                     [[(''training_loss'', l), (''training_acc'', a)],
                      [(''testing_loss'', vl), (''testing_acc'', va)]] \<and>
                   \<not> training w'
            else testing_loss h' = testing_loss h \<and> testing_acc h' = testing_acc h \<and>
                   wandb_log w' = wandb_log w @
                     [[(''training_loss'', l), (''training_acc'', a)]] \<and>
                   training w')"
proof -
  obtain r1 h1 w1 where tp: "training_part env dl device i (h, w) = (r1, h1, w1)"
    by (metis prod_cases3)
  with assms(1) have r1: "r1 = Inr ()"
    by (cases r1) (auto simp: epoch_body_def)
  from training_part_Inr [OF tp [unfolded r1] assms(2,3)]
  obtain l a w0 where te: "train_epoch env dl device w = (Inr (l, a), w0)"
    and h1: "h1 = h\<lparr>training_loss := training_loss h @ [l / real (length dl)],
                     training_acc := training_acc h @ [a / real (length dl)]\<rparr>"
    and w1: "w1 = w0\<lparr>wandb_log := wandb_log w0 @
                  [[(''training_loss'', l / real (length dl)),
                    (''training_acc'', a / real (length dl))]]\<rparr>"
    by blast
  note fr = train_epoch_frame [OF te]
  show ?thesis
  proof (cases "truthy tdl")
    case False
    with assms(1) tp r1 have "h' = h1" "w' = w1"
      by (auto simp: epoch_body_def split: option.splits)
    with False h1 w1 fr show ?thesis by simp
  next
    case True
    then obtain d where d: "tdl = Some d" by (cases tdl) (auto simp: truthy_def)
    with assms(1) tp r1 True
    have tsp: "testing_part env d device i (h1, w1) = (Inr u, h', w')"
      by (simp add: epoch_body_def)
    from assms(4) [OF True] h1
    have len: "length (testing_loss h1) = i" "length (testing_acc h1) = i" by simp_all
    from testing_part_Inr [OF tsp len]
    obtain vl va w2 where ve: "validate_epoch env d device w1 = (Inr (vl, va), w2)"
      and h': "h' = h1\<lparr>testing_loss := testing_loss h1 @ [vl / real (length d)],
                       testing_acc := testing_acc h1 @ [va / real (length d)]\<rparr>"
      and w': "w' = w2\<lparr>wandb_log := wandb_log w2 @
                    [[(''testing_loss'', vl / real (length d)),
                      (''testing_acc'', va / real (length d))]]\<rparr>"
      by blast
    from ve have w2: "w2 = w1\<lparr>training := False\<rparr>"
      using validate_epoch_world [of env d device w1] by simp
    from True h1 h' w' w2 w1 fr show ?thesis by simp
  qed
qed

lemma train_loop_Inr:
  assumes "train_loop env dl device tdl [k..<k + m] (h, w) = (Inr u, h', w')"
    and "length (training_loss h) = k" and "length (training_acc h) = k"
    and "truthy tdl \<Longrightarrow> length (testing_loss h) = k \<and> length (testing_acc h) = k"
  shows "\<exists>acc loss tacc tloss.
           training_acc h' = training_acc h @ acc \<and> training_loss h' = training_loss h @ loss \<and>
           testing_acc h' = testing_acc h @ tacc \<and> testing_loss h' = testing_loss h @ tloss \<and>
           length acc = m \<and> length loss = m \<and>
           length tacc = (if truthy tdl then m else 0) \<and>
           length tloss = (if truthy tdl then m else 0) \<and>
           wandb_log w' = wandb_log w @ emissions acc loss tacc tloss \<and>
           (0 < m \<longrightarrow> training w' = (\<not> truthy tdl))"
  using assms
proof (induction m arbitrary: k h w)
  case 0
  then show ?case by simp
next
  case (Suc m)
  have upt: "[k..<k + Suc m] = k # [Suc k..<Suc k + m]"
    by (simp add: upt_rec)
  obtain r1 h1 w1 where eb: "epoch_body env dl device tdl k (h, w) = (r1, h1, w1)"
    by (metis prod_cases3)
  with Suc.prems(1) upt have r1: "r1 = Inr ()"
    by (cases r1) auto
  with Suc.prems(1) upt eb
  have loop: "train_loop env dl device tdl [Suc k..<Suc k + m] (h1, w1) = (Inr u, h', w')"
    by simp
  from epoch_body_Inr [OF eb [unfolded r1] Suc.prems(2,3,4)]
  obtain l a where tr: "training_loss h1 = training_loss h @ [l]"
      "training_acc h1 = training_acc h @ [a]"
    and te: "if truthy tdl
            then \<exists>vl va. testing_loss h1 = testing_loss h @ [vl] \<and>
                   testing_acc h1 = testing_acc h @ [va] \<and>
                   wandb_log w1 = wandb_log w @
                     [[(''training_loss'', l), (''training_acc'', a)],
                      [(''testing_loss'', vl), (''testing_acc'', va)]] \<and>
                   \<not> training w1
            else testing_loss h1 = testing_loss h \<and> testing_acc h1 = testing_acc h \<and>
                   wandb_log w1 = wandb_log w @
                     [[(''training_loss'', l), (''training_acc'', a)]] \<and>
                   training w1"
    by blast
  have len1: "length (training_loss h1) = Suc k" "length (training_acc h1) = Suc k"
    using tr Suc.prems(2,3) by simp_all
  have len2: "truthy tdl \<Longrightarrow> length (testing_loss h1) = Suc k \<and> length (testing_acc h1) = Suc k"
    using te Suc.prems(4) by auto
  from Suc.IH [OF loop len1 len2]
  obtain acc loss tacc tloss where ih:
    "training_acc h' = training_acc h1 @ acc" "training_loss h' = training_loss h1 @ loss"
    "testing_acc h' = testing_acc h1 @ tacc" "testing_loss h' = testing_loss h1 @ tloss"
    "length acc = m" "length loss = m"
    "length tacc = (if truthy tdl then m else 0)"
    "length tloss = (if truthy tdl then m else 0)"
    "wandb_log w' = wandb_log w1 @ emissions acc loss tacc tloss"
    "0 < m \<longrightarrow> training w' = (\<not> truthy tdl)"
    by blast
  have m0: "m = 0 \<Longrightarrow> h' = h1 \<and> w' = w1"
    using loop by simp
  show ?case
  proof (cases "truthy tdl")
    case True
    with te obtain vl va where t1: "testing_loss h1 = testing_loss h @ [vl]"
        "testing_acc h1 = testing_acc h @ [va]"
        "wandb_log w1 = wandb_log w @
                     [[(''training_loss'', l), (''training_acc'', a)],
                      [(''testing_loss'', vl), (''testing_acc'', va)]]"
        "\<not> training w1"
      by auto
    have "training w' = (\<not> truthy tdl)"
      using ih(10) m0 t1(4) True by (cases m) auto
    with True tr t1 ih show ?thesis
      by (intro exI [of _ "a # acc"] exI [of _ "l # loss"] exI [of _ "va # tacc"]
            exI [of _ "vl # tloss"]) simp
  next
    case False
    with te have t1: "testing_loss h1 = testing_loss h" "testing_acc h1 = testing_acc h"
        "wandb_log w1 = wandb_log w @ [[(''training_loss'', l), (''training_acc'', a)]]"
        "training w1"
      by auto
    have "training w' = (\<not> truthy tdl)"
      using ih(10) m0 t1(4) False by (cases m) auto
    with False tr t1 ih show ?thesis
      by (intro exI [of _ "a # acc"] exI [of _ "l # loss"] exI [of _ "[]"]
            exI [of _ "[]"]) simp
  qed
qed



lemma train_zero:
  "epochs \<le> 0 \<Longrightarrow> train env dl device epochs tdl w = (Inr ([], [], [], []), w)"
  by (simp add: train_def empty_history_def)

lemma train_Inr:
  assumes "train env dl device epochs tdl w = (Inr (acc, loss, vacc, vloss), w')"
  shows "length acc = nat epochs \<and> length loss = nat epochs \<and>
         length vacc = (if truthy tdl then nat epochs else 0) \<and>
         length vloss = (if truthy tdl then nat epochs else 0) \<and>
         wandb_log w' = wandb_log w @ emissions acc loss vacc vloss \<and>
         (0 < nat epochs \<longrightarrow> training w' = (\<not> truthy tdl))"
proof -
  obtain r h where loop:
    "train_loop env dl device tdl [0..<0 + nat epochs] (empty_history, w) = (r, h, w')"
    and r: "r = Inr ()" and h: "acc = training_acc h" "loss = training_loss h"
      "vacc = testing_acc h" "vloss = testing_loss h"
    using assms by (auto simp: train_def split: prod.splits sum.splits)
  from train_loop_Inr [OF loop [unfolded r]] h show ?thesis
    by (auto simp: empty_history_def)
qed

lemma epoch_body_empty_test:
  "epoch_body env dl device (Some []) i s = epoch_body env dl device None i s"
  by (simp add: epoch_body_def truthy_def split: prod.splits sum.splits)

lemma train_loop_empty_test:
  "train_loop env dl device (Some []) is s = train_loop env dl device None is s"
  by (induction "is" arbitrary: s) (simp_all add: epoch_body_empty_test split: prod.splits sum.splits)

lemma train_empty_test:
  "train env dl device epochs (Some []) w = train env dl device epochs None w"
  by (simp add: train_def train_loop_empty_test)

lemma training_part_testing_frame:
  "training_part env dl device i (h, w) = (r, h', w') \<Longrightarrow>
     testing_loss h' = testing_loss h \<and> testing_acc h' = testing_acc h \<and>
     testing_entries (wandb_log w') = testing_entries (wandb_log w)"
  by (auto simp: training_part_def Let_def testing_entries_def
           split: prod.splits sum.splits dest!: train_epoch_frame)

lemma epoch_body_falsy:
  "\<not> truthy tdl \<Longrightarrow> epoch_body env dl device tdl i (h, w) = (r, h', w') \<Longrightarrow>
     testing_loss h' = testing_loss h \<and> testing_acc h' = testing_acc h \<and>
     testing_entries (wandb_log w') = testing_entries (wandb_log w)"
  by (auto simp: epoch_body_def split: prod.splits sum.splits option.splits
           dest!: training_part_testing_frame)

lemma train_loop_falsy:
  "\<not> truthy tdl \<Longrightarrow> train_loop env dl device tdl is (h, w) = (r, h', w') \<Longrightarrow>
     testing_loss h' = testing_loss h \<and> testing_acc h' = testing_acc h \<and>
     testing_entries (wandb_log w') = testing_entries (wandb_log w)"
proof (induction "is" arbitrary: h w)
  case Nil
  then show ?case by simp
next
  case (Cons i "is")
  obtain r1 h1 w1 where eb: "epoch_body env dl device tdl i (h, w) = (r1, h1, w1)"
    by (metis prod_cases3)
  note fr = epoch_body_falsy [OF Cons.prems(1) eb]
  show ?case
  proof (cases r1)
    case (Inl e)
    with Cons.prems(2) eb fr show ?thesis by auto
  next
    case (Inr u)
    with Cons.prems(2) eb have "train_loop env dl device tdl is (h1, w1) = (r, h', w')"
      by simp
    from Cons.IH [OF Cons.prems(1) this] fr show ?thesis by simp
  qed
qed

lemma train_epoch_empty:
  "train_epoch env [] device w = (Inr (0, 0), w\<lparr>training := True\<rparr>)"
  by (simp add: train_epoch_def)

lemma validate_step_cong:
  "params w2 = params w \<Longrightarrow> training w2 = training w \<Longrightarrow>
     validate_step env device b w2 = validate_step env device b w"
  by (cases b) (simp add: validate_step_def split: option.splits)

lemma validate_batches_cong:
  "params w2 = params w \<Longrightarrow> training w2 = training w \<Longrightarrow>
     validate_batches env device bs acc w2 = validate_batches env device bs acc w"
proof (induction bs arbitrary: acc)
  case Nil
  then show ?case by simp
next
  case (Cons b bs)
  obtain sl sa sn where acc: "acc = (sl, sa, sn)" by (cases acc) auto
  from Cons show ?case
    by (simp add: acc validate_step_cong [of w2 w] split: sum.splits)
qed

lemma validate_epoch_result_cong:
  assumes "params w2 = params w"
  shows "fst (validate_epoch env dl device w2) = fst (validate_epoch env dl device w)"
proof -
  have "validate_batches env device dl (0, 0, 0) (w2\<lparr>training := False, grad_enabled := False\<rparr>) =
        validate_batches env device dl (0, 0, 0) (w\<lparr>training := False, grad_enabled := False\<rparr>)"
    by (rule validate_batches_cong) (simp_all add: assms)
  then show ?thesis
    by (simp add: validate_epoch_def Let_def split: sum.splits prod.splits)
qed

subsection \<open>The claims on the run history\<close>

text \<open>
  C2, as the specification states it: the run history is returned in the order training
  loss, training accuracy, testing loss, testing accuracy. In the scenario of four batches
  the value returned has the accuracy series first: the claim fails.
\<close>

theorem spec_order_counterexample:
  "fst (train replay scenario () 1 None fresh) = Inr ([1 / 2], [5 / 2], [], []) \<and>
   spec_run_history
     (fst (snd (train_loop replay scenario () None [0..<nat 1] (empty_history, fresh)))) =
     ([5 / 2], [1 / 2], [], []) \<and>
   fst (train replay scenario () 1 None fresh) \<noteq>
     Inr (spec_run_history
       (fst (snd (train_loop replay scenario () None [0..<nat 1] (empty_history, fresh)))))"
proof -
  have "train_loop replay scenario () None [0..<nat 1] (empty_history, fresh) =
      (Inr (), \<lparr>training_acc = [1 / 2], training_loss = [5 / 2], testing_acc = [],
                testing_loss = []\<rparr>,
       \<lparr>params = 4, training = True, optimizer = 1, grad_enabled = True,
        wandb_log = [[(''training_loss'', 5 / 2), (''training_acc'', 1 / 2)]]\<rparr>)"
    by (simp add: epoch_body_def training_part_def replay_train_scenario
        py_truediv_def py_index_def empty_history_def fresh_def scenario_length)
  then show ?thesis
    by (simp add: replay_run_without_validation spec_run_history_def)
qed

text \<open>
  C2, amended. When \<open>train\<close> returns, it returns a tuple of four series in the order
  training accuracy, training loss, testing accuracy, testing loss: the dictionaries
  logged during the run are those rebuilt from the four series read in that order, epoch
  by epoch. Each training series has one entry per epoch. Each testing series has one
  entry per epoch when a validation dataloader of at least one batch was given, and no
  entry when none was given or the one given has no batch.
\<close>

theorem returned_series_order:
  assumes "train env dl device epochs tdl w = (Inr (acc, loss, vacc, vloss), w')"
  shows "wandb_log w' = wandb_log w @ emissions acc loss vacc vloss \<and>
         length acc = nat epochs \<and> length loss = nat epochs \<and>
         length vacc = (if tdl = None \<or> tdl = Some [] then 0 else nat epochs) \<and>
         length vloss = (if tdl = None \<or> tdl = Some [] then 0 else nat epochs)"
proof -
  have "truthy tdl = (\<not> (tdl = None \<or> tdl = Some []))"
    by (cases tdl) (simp_all add: truthy_def)
  with train_Inr [OF assms] show ?thesis by simp
qed

lemma replay_run_with_validation:
  "train replay scenario () 1 (Some scenario) fresh =
      (Inr ([1 / 2], [5 / 2], [1 / 2], [5 / 2]),
       \<lparr>params = 4, training = False, optimizer = 1, grad_enabled = True,
        wandb_log = [[(''training_loss'', 5 / 2), (''training_acc'', 1 / 2)],
                     [(''testing_loss'', 5 / 2), (''testing_acc'', 1 / 2)]]\<rparr>)"
  by (simp add: train_def epoch_body_def training_part_def testing_part_def truthy_def
        replay_train_scenario replay_validate_scenario
        py_truediv_def py_index_def empty_history_def fresh_def scenario_length)

lemma replay_run_with_empty_validation:
  "train replay scenario () 1 (Some []) fresh =
      (Inr ([1 / 2], [5 / 2], [], []),
       \<lparr>params = 4, training = True, optimizer = 1, grad_enabled = True,
        wandb_log = [[(''training_loss'', 5 / 2), (''training_acc'', 1 / 2)]]\<rparr>)"
  by (simp add: train_empty_test replay_run_without_validation)

theorem returned_series_order_witness:
  "train replay scenario () 1 (Some scenario) fresh =
      (Inr ([1 / 2], [5 / 2], [1 / 2], [5 / 2]),
       \<lparr>params = 4, training = False, optimizer = 1, grad_enabled = True,
        wandb_log = [[(''training_loss'', 5 / 2), (''training_acc'', 1 / 2)],
                     [(''testing_loss'', 5 / 2), (''testing_acc'', 1 / 2)]]\<rparr>) \<and>
   [[(''training_loss'', 5 / 2), (''training_acc'', 1 / 2)],
    [(''testing_loss'', 5 / 2), (''testing_acc'', 1 / 2)]] =
     wandb_log fresh @ emissions [1 / 2] [5 / 2] [1 / 2] [5 / 2] \<and>
   length [1 / 2 :: real] =
     (if Some scenario = None \<or> Some scenario = Some [] then 0 else nat 1) \<and>
   train replay scenario () 1 (Some []) fresh =
      (Inr ([1 / 2], [5 / 2], [], []),
       \<lparr>params = 4, training = True, optimizer = 1, grad_enabled = True,
        wandb_log = [[(''training_loss'', 5 / 2), (''training_acc'', 1 / 2)]]\<rparr>) \<and>
   [[(''training_loss'', 5 / 2), (''training_acc'', 1 / 2)]] =
     wandb_log fresh @ emissions [1 / 2] [5 / 2] [] [] \<and>
   length ([] :: real list) =
     (if Some ([] :: (real \<times> int list) dataloader) = None \<or>
         Some ([] :: (real \<times> int list) dataloader) = Some [] then 0 else nat 1)"
  using returned_series_order [OF replay_run_with_validation]
    returned_series_order [OF replay_run_with_empty_validation]
  by (simp add: replay_run_with_validation replay_run_with_empty_validation)

text \<open>
  C3, as the specification states it: the testing series have an entry for each epoch
  when validation data was supplied. A run of one epoch that is given a validation
  dataloader of zero batches returns, and its testing series are empty: the claim fails.
\<close>

theorem empty_validation_counterexample:
  "fst (train replay scenario () 1 (Some []) fresh) = Inr ([1 / 2], [5 / 2], [], []) \<and>
   \<not> spec_testing_series 1 (Some ([] :: (real \<times> int list) dataloader))
       ([1 / 2], [5 / 2], [], [])"
  by (simp add: train_empty_test replay_run_without_validation spec_testing_series_def)

text \<open>
  C3, amended. When \<open>train\<close> returns, each training series has exactly \<open>epochs\<close> entries
  (none for a count below zero), and each testing series has as many when the validation
  dataloader is true as a condition (supplied, and of at least one batch), and none
  otherwise. For \<open>epochs = 0\<close> the run returns four empty series and leaves the world,
  and with it the log, as it was.
\<close>

theorem series_lengths:
  "(train env dl device epochs tdl w = (Inr (acc, loss, vacc, vloss), w') \<longrightarrow>
      length acc = nat epochs \<and> length loss = nat epochs \<and>
      length vacc = (if truthy tdl then nat epochs else 0) \<and>
      length vloss = (if truthy tdl then nat epochs else 0)) \<and>
   train env dl device 0 tdl w = (Inr ([], [], [], []), w)"
  using train_Inr [of env dl device epochs tdl w acc loss vacc vloss w']
  by (simp add: train_zero)

theorem series_lengths_witness:
  "train replay scenario () 1 (Some scenario) fresh =
      (Inr ([1 / 2], [5 / 2], [1 / 2], [5 / 2]),
       \<lparr>params = 4, training = False, optimizer = 1, grad_enabled = True,
        wandb_log = [[(''training_loss'', 5 / 2), (''training_acc'', 1 / 2)],
                     [(''testing_loss'', 5 / 2), (''testing_acc'', 1 / 2)]]\<rparr>) \<and>
   truthy (Some scenario) \<and>
   length [1 / 2 :: real] = nat 1 \<and> length [5 / 2 :: real] = nat 1 \<and>
   train replay scenario () 0 (Some scenario) fresh = (Inr ([], [], [], []), fresh)"
  using series_lengths [of replay scenario "()" 1 "Some scenario" fresh
      "[1 / 2]" "[5 / 2]" "[1 / 2]" "[5 / 2]"
      "\<lparr>params = 4, training = False, optimizer = 1, grad_enabled = True,
        wandb_log = [[(''training_loss'', 5 / 2), (''training_acc'', 1 / 2)],
                     [(''testing_loss'', 5 / 2), (''testing_acc'', 1 / 2)]]\<rparr>"]
    series_lengths [of replay scenario "()" 0 "Some scenario" fresh]
  by (simp add: replay_run_with_validation truthy_def scenario_length)

subsection \<open>The claims on validate_epoch\<close>

text \<open>
  C5. \<open>validate_epoch\<close> does not change the parameters of the model, whatever the model,
  the dataset, the loss function and the device, and whether it returns or raises: the
  world it leaves is the world it was given with the mode flag set to evaluation.
\<close>

theorem validate_epoch_keeps_params:
  "params (snd (validate_epoch env test_dataloader device w)) = params w \<and>
   snd (validate_epoch env test_dataloader device w) = w\<lparr>training := False\<rparr>"
  by (simp add: validate_epoch_world)

text \<open>
  C6. A second call of \<open>validate_epoch\<close> on the same dataloader, from the world that the
  first call left, has the same outcome as the first; and the losses and accuracies that
  \<open>validate_epoch\<close> returns are the same in any two worlds with the same parameters.
\<close>

theorem validate_epoch_idempotent:
  "validate_epoch env test_dataloader device (snd (validate_epoch env test_dataloader device w)) =
     validate_epoch env test_dataloader device w \<and>
   (params w2 = params w \<longrightarrow>
      fst (validate_epoch env test_dataloader device w2) =
        fst (validate_epoch env test_dataloader device w))"
proof -
  let ?w1 = "snd (validate_epoch env test_dataloader device w)"
  have w1: "?w1 = w\<lparr>training := False\<rparr>" by (rule validate_epoch_world)
  have "fst (validate_epoch env test_dataloader device ?w1) =
        fst (validate_epoch env test_dataloader device w)"
    by (rule validate_epoch_result_cong) (simp add: w1)
  moreover have "snd (validate_epoch env test_dataloader device ?w1) = ?w1"
    by (simp add: validate_epoch_world w1)
  ultimately have "validate_epoch env test_dataloader device ?w1 =
      validate_epoch env test_dataloader device w"
    by (simp add: prod_eq_iff)
  with validate_epoch_result_cong [of w2 w env test_dataloader device]
  show ?thesis by blast
qed

theorem validate_epoch_idempotent_witness:
  "validate_epoch replay scenario () fresh = (Inr (10, 2), fresh\<lparr>training := False\<rparr>) \<and>
   validate_epoch replay scenario () (fresh\<lparr>training := False\<rparr>) =
     (Inr (10, 2), fresh\<lparr>training := False\<rparr>) \<and>
   params (fresh\<lparr>optimizer := 7, wandb_log := [[(''training_loss'', 1)]]\<rparr>) = params fresh \<and>
   fst (validate_epoch replay scenario ()
          (fresh\<lparr>optimizer := 7, wandb_log := [[(''training_loss'', 1)]]\<rparr>)) = Inr (10, 2)"
  using validate_epoch_idempotent [of replay scenario "()" fresh
      "fresh\<lparr>optimizer := 7, wandb_log := [[(''training_loss'', 1)]]\<rparr>"]
  by (simp add: replay_validate_scenario)

subsection \<open>The claims on empty dataloaders\<close>

text \<open>
  C8. With a training dataloader of zero batches and at least one epoch, \<open>train\<close> raises
  ZeroDivisionError in its first epoch, when it divides the loss sum by the batch count:
  at that point none of the four lists has an entry and nothing was logged; the model was
  put into training mode.
\<close>

theorem empty_training_set_raises:
  assumes "1 \<le> epochs"
  shows "train env [] device epochs test_dataloader w =
           (Inl ZeroDivisionError, w\<lparr>training := True\<rparr>) \<and>
         train_loop env [] device test_dataloader [0..<nat epochs] (empty_history, w) =
           (Inl ZeroDivisionError, empty_history, w\<lparr>training := True\<rparr>)"
proof -
  from assms have upt: "[0..<nat epochs] = 0 # [1..<nat epochs]"
    by (simp add: upt_rec)
  have "training_part env [] device 0 (empty_history, w) =
          (Inl ZeroDivisionError, empty_history, w\<lparr>training := True\<rparr>)"
    by (simp add: training_part_def train_epoch_empty py_truediv_def)
  then have "train_loop env [] device test_dataloader [0..<nat epochs] (empty_history, w) =
           (Inl ZeroDivisionError, empty_history, w\<lparr>training := True\<rparr>)"
    by (simp add: upt epoch_body_def)
  then show ?thesis by (simp add: train_def)
qed

theorem empty_training_set_raises_witness:
  "(1::int) \<le> 3 \<and>
   train replay [] () 3 (Some scenario) fresh = (Inl ZeroDivisionError, fresh) \<and>
   train_loop replay [] () (Some scenario) [0..<nat 3] (empty_history, fresh) =
     (Inl ZeroDivisionError, empty_history, fresh)"
  using empty_training_set_raises [of 3 replay "()" "Some scenario" fresh] by (simp add: fresh_def)

text \<open>
  C9. A validation dataloader of zero batches is false as a condition, and \<open>train\<close> treats
  it as it treats \<open>None\<close>: the two runs have the same outcome. Whatever the epochs
  run and however the loop ends, it appends nothing to the testing lists and logs no
  dictionary with a testing key.
\<close>

theorem empty_validation_as_absent:
  "train env dl device epochs (Some []) w = train env dl device epochs None w \<and>
   testing_loss (fst (snd (train_loop env dl device (Some []) is (h, w)))) = testing_loss h \<and>
   testing_acc (fst (snd (train_loop env dl device (Some []) is (h, w)))) = testing_acc h \<and>
   testing_entries (wandb_log (snd (snd (train_loop env dl device (Some []) is (h, w))))) =
     testing_entries (wandb_log w)"
proof -
  obtain r h' w' where loop: "train_loop env dl device (Some []) is (h, w) = (r, h', w')"
    by (metis prod_cases3)
  have "testing_loss h' = testing_loss h \<and> testing_acc h' = testing_acc h \<and>
     testing_entries (wandb_log w') = testing_entries (wandb_log w)"
    by (rule train_loop_falsy [OF _ loop]) (simp add: truthy_def)
  with loop show ?thesis by (simp add: train_def train_loop_empty_test)
qed

subsection \<open>The mode of the model\<close>

text \<open>
  C10, as stated: after a run of \<open>train\<close> with validation data the model is in evaluation
  mode. A run of zero epochs with validation data of four batches returns and leaves the
  model in training mode, as it was: the claim fails.
\<close>

theorem zero_epochs_mode_counterexample:
  "fst (train replay scenario () 0 (Some scenario) fresh) = Inr ([], [], [], []) \<and>
   truthy (Some scenario) \<and>
   training (snd (train replay scenario () 0 (Some scenario) fresh))"
  by (simp add: train_zero truthy_def scenario_length fresh_def)

text \<open>
  C10, amended. \<open>train_epoch\<close> puts the model into training mode before anything reads
  the mode: its outcome does not depend on the mode at entry, the model is called in
  training mode from the first batch on, and every call leaves the model in training
  mode, whether it returns or raises. \<open>validate_epoch\<close> does the same with evaluation
  mode. After a run of \<open>train\<close> over at least one epoch that returns, the model is in
  evaluation mode when a validation dataloader of at least one batch was given, and in
  training mode when none was given or the one given has no batch. A run of no epoch
  leaves the world, and with it the mode, as it was.
\<close>

theorem mode_after_run:
  "train_epoch env dl device (w\<lparr>training := m\<rparr>) =
     train_epoch env dl device (w\<lparr>training := True\<rparr>) \<and>
   training (snd (train_epoch env dl device w)) \<and>
   (tensor_to env device = None \<and> forward env (params w) True wav = Inl e \<longrightarrow>
      train_epoch env ((wav, t) # bs) device w = (Inl e, w\<lparr>training := True\<rparr>)) \<and>
   validate_epoch env vdl device (w\<lparr>training := m\<rparr>) =
     validate_epoch env vdl device (w\<lparr>training := False\<rparr>) \<and>
   \<not> training (snd (validate_epoch env vdl device w)) \<and>
   (tensor_to env device = None \<and> forward env (params w) False wav = Inl e \<longrightarrow>
      validate_epoch env ((wav, t) # bs) device w = (Inl e, w\<lparr>training := False\<rparr>)) \<and>
   (train env dl device epochs tdl w = (Inr r, w') \<longrightarrow> 1 \<le> epochs \<longrightarrow>
      training w' = (tdl = None \<or> tdl = Some [])) \<and>
   (epochs \<le> 0 \<longrightarrow> train env dl device epochs tdl w = (Inr ([], [], [], []), w))"
proof -
  have "train_epoch env dl device (w\<lparr>training := m\<rparr>) =
     train_epoch env dl device (w\<lparr>training := True\<rparr>)"
    by (simp add: train_epoch_def)
  moreover have "training (snd (train_epoch env dl device w))"
    using train_epoch_frame [of env dl device w] by (cases "train_epoch env dl device w") simp
  moreover have "train_epoch env ((wav, t) # bs) device w = (Inl e, w\<lparr>training := True\<rparr>)"
    if "tensor_to env device = None" and "forward env (params w) True wav = Inl e"
    using that by (simp add: train_epoch_def train_step_def)
  moreover have "validate_epoch env vdl device (w\<lparr>training := m\<rparr>) =
     validate_epoch env vdl device (w\<lparr>training := False\<rparr>)"
    by (simp add: validate_epoch_def)
  moreover have "\<not> training (snd (validate_epoch env vdl device w))"
    by (simp add: validate_epoch_world)
  moreover have "validate_epoch env ((wav, t) # bs) device w = (Inl e, w\<lparr>training := False\<rparr>)"
    if "tensor_to env device = None" and "forward env (params w) False wav = Inl e"
    using that by (simp add: validate_epoch_def validate_step_def)
  moreover have "training w' = (tdl = None \<or> tdl = Some [])"
    if "train env dl device epochs tdl w = (Inr r, w')" and "1 \<le> epochs"
  proof -
    obtain acc loss vacc vloss where "r = (acc, loss, vacc, vloss)" by (cases r) auto
    moreover have "truthy tdl = (\<not> (tdl = None \<or> tdl = Some []))"
      by (cases tdl) (simp_all add: truthy_def)
    ultimately show ?thesis
      using train_Inr [of env dl device epochs tdl w acc loss vacc vloss w'] that by simp
  qed
  moreover have "train env dl device epochs tdl w = (Inr ([], [], [], []), w)"
    if "epochs \<le> 0"
    using that by (rule train_zero)
  ultimately show ?thesis by blast
qed

lemma replay_run_from_evaluation_mode:
  "train replay scenario () 1 None (fresh\<lparr>training := False\<rparr>) =
      (Inr ([1 / 2], [5 / 2], [], []),
       \<lparr>params = 4, training = True, optimizer = 1, grad_enabled = True,
        wandb_log = [[(''training_loss'', 5 / 2), (''training_acc'', 1 / 2)]]\<rparr>)"
  by (simp add: train_def epoch_body_def training_part_def replay_train_scenario
        py_truediv_def py_index_def empty_history_def fresh_def scenario_length truthy_def)

theorem mode_after_run_witness:
  "train_epoch replay scenario () (fresh\<lparr>training := False\<rparr>) =
     train_epoch replay scenario () (fresh\<lparr>training := True\<rparr>) \<and>
   training (snd (train_epoch replay scenario () (fresh\<lparr>training := False\<rparr>))) \<and>
   forward replay (params fresh) True (- 1, [0, 0]) = Inl (Raised ''forward'') \<and>
   train_epoch replay flawed () (fresh\<lparr>training := False\<rparr>) =
     (Inl (Raised ''forward''), fresh\<lparr>training := True, optimizer := 1, params := 1\<rparr>) \<and>
   train_epoch replay (((- 1, [0, 0]), [0, 0]) # scenario) () (fresh\<lparr>training := False\<rparr>) =
     (Inl (Raised ''forward''), fresh\<lparr>training := True\<rparr>) \<and>
   validate_epoch replay (((- 1, [0, 0]), [0, 0]) # scenario) () fresh =
     (Inl (Raised ''forward''), fresh\<lparr>training := False\<rparr>) \<and>
   \<not> training (snd (validate_epoch replay scenario () fresh)) \<and>
   train replay scenario () 1 (Some scenario) fresh =
      (Inr ([1 / 2], [5 / 2], [1 / 2], [5 / 2]),
       \<lparr>params = 4, training = False, optimizer = 1, grad_enabled = True,
        wandb_log = [[(''training_loss'', 5 / 2), (''training_acc'', 1 / 2)],
                     [(''testing_loss'', 5 / 2), (''testing_acc'', 1 / 2)]]\<rparr>) \<and>
   train replay scenario () 1 None (fresh\<lparr>training := False\<rparr>) =
      (Inr ([1 / 2], [5 / 2], [], []),
       \<lparr>params = 4, training = True, optimizer = 1, grad_enabled = True,
        wandb_log = [[(''training_loss'', 5 / 2), (''training_acc'', 1 / 2)]]\<rparr>) \<and>
   (1::int) \<le> 1 \<and> (0::int) \<le> 0 \<and>
   train replay scenario () 0 (Some scenario) (fresh\<lparr>training := False\<rparr>) =
     (Inr ([], [], [], []), fresh\<lparr>training := False\<rparr>)"
proof -
  let ?bad = "(((- 1, [0, 0]), [0, 0]) :: (real \<times> int list) batch)"
  have fw: "forward replay (params (fresh\<lparr>training := False\<rparr>)) True (- 1, [0, 0]) =
      Inl (Raised ''forward'')"
    "forward replay (params fresh) False (- 1, [0, 0]) = Inl (Raised ''forward'')"
    "tensor_to replay () = None"
    by (simp_all add: replay_def)
  have fl: "train_epoch replay flawed () (fresh\<lparr>training := False\<rparr>) =
     (Inl (Raised ''forward''), fresh\<lparr>training := True, optimizer := 1, params := 1\<rparr>)"
    by (simp add: train_epoch_def flawed_def replay_step scenario_accuracies fresh_def)
       (simp add: train_step_def replay_def)
  note a = mode_after_run [where env = replay and dl = scenario and device = "()"
      and w = "fresh\<lparr>training := False\<rparr>" and m = False and wav = "(- 1, [0, 0])"
      and e = "Raised ''forward''" and t = "[0, 0]" and bs = scenario and vdl = scenario
      and epochs = 1 and tdl = None and r = "([1 / 2], [5 / 2], [], [])"
      and w' = "\<lparr>params = 4, training = True, optimizer = 1, grad_enabled = True,
        wandb_log = [[(''training_loss'', 5 / 2), (''training_acc'', 1 / 2)]]\<rparr>"]
  note b = mode_after_run [where env = replay and dl = scenario and device = "()"
      and w = fresh and m = True and wav = "(- 1, [0, 0])"
      and e = "Raised ''forward''" and t = "[0, 0]" and bs = scenario and vdl = scenario
      and epochs = 1 and tdl = "Some scenario" and r = "([1 / 2], [5 / 2], [1 / 2], [5 / 2])"
      and w' = "\<lparr>params = 4, training = False, optimizer = 1, grad_enabled = True,
        wandb_log = [[(''training_loss'', 5 / 2), (''training_acc'', 1 / 2)],
                     [(''testing_loss'', 5 / 2), (''testing_acc'', 1 / 2)]]\<rparr>"]
  note c = mode_after_run [where env = replay and dl = scenario and device = "()"
      and w = "fresh\<lparr>training := False\<rparr>" and epochs = 0 and tdl = "Some scenario"]
  from a b c fw fl show ?thesis
    by (simp add: replay_run_with_validation replay_run_from_evaluation_mode
          replay_validate_scenario replay_train_scenario)
qed

subsection \<open>The accuracy sum\<close>

















subsection \<open>Exceptions\<close>

lemma train_batches_raise:
  assumes "train_batches env device pre acc w = (Inr acc1, w1)"
    and "train_step env device b w1 = (Inl e, w2)"
  shows "train_batches env device (pre @ b # post) acc w = (Inl e, w2)"
  using assms
proof (induction pre arbitrary: acc w)
  case Nil
  then show ?case by (cases acc) auto
next
  case (Cons a pre)
  obtain sl sa sn where acc: "acc = (sl, sa, sn)" by (cases acc) auto
  from Cons.prems(1) show ?case
    by (auto simp: acc split: prod.splits sum.splits intro: Cons.IH [OF _ Cons.prems(2)])
qed

lemma validate_batches_raise:
  assumes "validate_batches env device pre acc w = Inr acc1"
    and "validate_step env device b w = Inl e"
  shows "validate_batches env device (pre @ b # post) acc w = Inl e"
  using assms
proof (induction pre arbitrary: acc)
  case Nil
  then show ?case by (cases acc) auto
next
  case (Cons a pre)
  obtain sl sa sn where acc: "acc = (sl, sa, sn)" by (cases acc) auto
  from Cons.prems(1) show ?case
    by (auto simp: acc split: prod.splits sum.splits intro: Cons.IH [OF _ Cons.prems(2)])
qed

lemma train_loop_append:
  "train_loop env dl device tdl is1 s = (Inr u, s1) \<Longrightarrow>
     train_loop env dl device tdl (is1 @ is2) s = train_loop env dl device tdl is2 s1"
  by (induction is1 arbitrary: s) (auto split: prod.splits sum.splits)

lemma train_raise_in_epoch:
  assumes "train_loop env dl device tdl [0..<k] (empty_history, w) = (Inr (), h, wk)"
    and "k < nat epochs"
    and "epoch_body env dl device tdl k (h, wk) = (Inl e, h', w')"
  shows "train env dl device epochs tdl w = (Inl e, w')"
proof -
  from assms(2) have "[0..<nat epochs] = [0..<k] @ k # [Suc k..<nat epochs]"
    using upt_add_eq_append [of 0 k "nat epochs - k"] by (simp add: upt_conv_Cons)
  with train_loop_append [OF assms(1)] assms(3)
  have "train_loop env dl device tdl [0..<nat epochs] (empty_history, w) = (Inl e, h', w')"
    by simp
  then show ?thesis by (simp add: train_def)
qed


lemma train_epoch_raise:
  assumes "train_batches env device pre (0, 0, 0) (w\<lparr>training := True\<rparr>) = (Inr totals, wb)"
    and "train_step env device b wb = (Inl e, wx)"
  shows "train_epoch env (pre @ b # post) device w = (Inl e, wx)"
  using train_batches_raise [OF assms, of post] by (simp add: train_epoch_def)

lemma validate_epoch_raise:
  assumes "validate_batches env device pre (0, 0, 0)
             (w\<lparr>training := False, grad_enabled := False\<rparr>) = Inr totals"
    and "validate_step env device b (w\<lparr>training := False, grad_enabled := False\<rparr>) = Inl e"
  shows "validate_epoch env (pre @ b # post) device w = (Inl e, w\<lparr>training := False\<rparr>)"
  using validate_batches_raise [OF assms, of post] by (simp add: validate_epoch_def Let_def)

lemma train_step_returns:
  assumes "train_step env device (wav, t) v = (Inr (l, f), v')"
  shows "tensor_to env device = None \<and>
         (\<exists>out loss o1 o2 o3 p3 pr.
            forward env (params v) (training v) wav = Inr out \<and>
            loss_fn env out t = Inr loss \<and> zero_grad env (optimizer v) = Inr o1 \<and>
            backward env loss o1 = Inr o2 \<and> step env o2 (params v) = Inr (o3, p3) \<and>
            argmax env out = Inr pr \<and> batch_accuracy pr t = Inr f \<and>
            l = item env loss \<and> v' = v\<lparr>optimizer := o3, params := p3\<rparr>)"
  using assms
  by (auto simp: train_step_def Let_def split: option.splits sum.splits prod.splits)

lemma validate_step_returns:
  assumes "validate_step env device (wav, t) v = Inr (l, f)"
  shows "tensor_to env device = None \<and>
         (\<exists>out loss pr.
            forward env (params v) (training v) wav = Inr out \<and>
            loss_fn env out t = Inr loss \<and> argmax env out = Inr pr \<and>
            batch_accuracy pr t = Inr f \<and> l = item env loss)"
  using assms
  by (auto simp: validate_step_def split: option.splits sum.splits)

lemma fragile_step:
  "0 \<le> l \<Longrightarrow>
     train_step fragile () ((l, p), t) w =
       (if 5 \<le> params w then (Inl (Raised ''step''), w\<lparr>optimizer := 1\<rparr>)
        else case batch_accuracy p t of
          Inl e \<Rightarrow> (Inl e, w\<lparr>optimizer := 1, params := params w + 1\<rparr>)
        | Inr f \<Rightarrow> (Inr (l, f), w\<lparr>optimizer := 1, params := params w + 1\<rparr>))"
  by (simp add: train_step_def fragile_def replay_def Let_def split: sum.splits)

lemma fragile_first_epoch:
  "train_loop fragile scenario () None [0..<1] (empty_history, fresh) =
     (Inr (), \<lparr>training_acc = [1 / 2], training_loss = [5 / 2], testing_acc = [],
               testing_loss = []\<rparr>,
      \<lparr>params = 4, training = True, optimizer = 1, grad_enabled = True,
       wandb_log = [[(''training_loss'', 5 / 2), (''training_acc'', 1 / 2)]]\<rparr>)"
proof -
  have "train_epoch fragile scenario () fresh =
     (Inr (10, 2), \<lparr>params = 4, training = True, optimizer = 1, grad_enabled = True,
                     wandb_log = []\<rparr>)"
    by (simp add: train_epoch_def scenario_def fragile_step scenario_accuracies fresh_def)
  then show ?thesis
    by (simp add: epoch_body_def training_part_def py_truediv_def py_index_def
          empty_history_def scenario_length)
qed

text \<open>
  C7. Let the first \<open>k\<close> epochs of a run of \<open>train\<close> have completed, with more epochs to
  go. Whatever exception \<open>e\<close> the body of the next epoch raises, \<open>train\<close> raises that same
  \<open>e\<close> and no later epoch runs. In particular, if the step of \<open>train_epoch\<close> for some
  batch raises \<open>e\<close>, after the batches before it were processed, then \<open>train\<close> raises
  \<open>e\<close>, and the world is the one in which the step failed: no later batch runs. The same
  holds for a batch of \<open>validate_epoch\<close>, where the world is left in evaluation mode.

  A step raises the exception of whichever call raises first in it: the move to the
  device, the model, the loss function, \<open>zero_grad\<close>, \<open>backward\<close>, the optimizer's \<open>step\<close>,
  \<open>torch.argmax\<close> or the accuracy line. And a step returns only when each of these calls
  has returned: no exception is replaced by a value.
\<close>

theorem exceptions_propagate:
  assumes "train_loop env dl device tdl [0..<k] (empty_history, w) = (Inr (), h, wk)"
    and "k < nat epochs"
  shows
   "(epoch_body env dl device tdl k (h, wk) = (Inl e, h', w')
       \<longrightarrow> train env dl device epochs tdl w = (Inl e, w')) \<and>
    (dl = pre @ b # post \<and>
     train_batches env device pre (0, 0, 0) (wk\<lparr>training := True\<rparr>) = (Inr totals, wb) \<and>
     train_step env device b wb = (Inl e, wx)
       \<longrightarrow> train env dl device epochs tdl w = (Inl e, wx)) \<and>
    (training_part env dl device k (h, wk) = (Inr (), h1, w1) \<and>
     tdl = Some (vpre @ vb # vpost) \<and>
     validate_batches env device vpre (0, 0, 0)
       (w1\<lparr>training := False, grad_enabled := False\<rparr>) = Inr vtotals \<and>
     validate_step env device vb (w1\<lparr>training := False, grad_enabled := False\<rparr>) = Inl e
       \<longrightarrow> train env dl device epochs tdl w = (Inl e, w1\<lparr>training := False\<rparr>)) \<and>
    (tensor_to env device = Some e
       \<longrightarrow> train_step env device (wav, t) v = (Inl e, v) \<and>
           validate_step env device (wav, t) v = Inl e) \<and>
    (tensor_to env device = None \<and> forward env (params v) (training v) wav = Inl e
       \<longrightarrow> train_step env device (wav, t) v = (Inl e, v) \<and>
           validate_step env device (wav, t) v = Inl e) \<and>
    (tensor_to env device = None \<and> forward env (params v) (training v) wav = Inr out \<and>
     loss_fn env out t = Inl e
       \<longrightarrow> train_step env device (wav, t) v = (Inl e, v) \<and>
           validate_step env device (wav, t) v = Inl e) \<and>
    (tensor_to env device = None \<and> forward env (params v) (training v) wav = Inr out \<and>
     loss_fn env out t = Inr loss \<and> zero_grad env (optimizer v) = Inl e
       \<longrightarrow> train_step env device (wav, t) v = (Inl e, v)) \<and>
    (tensor_to env device = None \<and> forward env (params v) (training v) wav = Inr out \<and>
     loss_fn env out t = Inr loss \<and> zero_grad env (optimizer v) = Inr o1 \<and>
     backward env loss o1 = Inl e
       \<longrightarrow> train_step env device (wav, t) v = (Inl e, v\<lparr>optimizer := o1\<rparr>)) \<and>
    (tensor_to env device = None \<and> forward env (params v) (training v) wav = Inr out \<and>
     loss_fn env out t = Inr loss \<and> zero_grad env (optimizer v) = Inr o1 \<and>
     backward env loss o1 = Inr o2 \<and> step env o2 (params v) = Inl e
       \<longrightarrow> train_step env device (wav, t) v = (Inl e, v\<lparr>optimizer := o2\<rparr>)) \<and>
    (tensor_to env device = None \<and> forward env (params v) (training v) wav = Inr out \<and>
     loss_fn env out t = Inr loss \<and> zero_grad env (optimizer v) = Inr o1 \<and>
     backward env loss o1 = Inr o2 \<and> step env o2 (params v) = Inr (o3, p3) \<and>
     argmax env out = Inl e
       \<longrightarrow> train_step env device (wav, t) v = (Inl e, v\<lparr>optimizer := o3, params := p3\<rparr>)) \<and>
    (tensor_to env device = None \<and> forward env (params v) (training v) wav = Inr out \<and>
     loss_fn env out t = Inr loss \<and> zero_grad env (optimizer v) = Inr o1 \<and>
     backward env loss o1 = Inr o2 \<and> step env o2 (params v) = Inr (o3, p3) \<and>
     argmax env out = Inr pr \<and> batch_accuracy pr t = Inl e
       \<longrightarrow> train_step env device (wav, t) v = (Inl e, v\<lparr>optimizer := o3, params := p3\<rparr>)) \<and>
    (tensor_to env device = None \<and> forward env (params v) (training v) wav = Inr out \<and>
     loss_fn env out t = Inr loss \<and> argmax env out = Inl e
       \<longrightarrow> validate_step env device (wav, t) v = Inl e) \<and>
    (tensor_to env device = None \<and> forward env (params v) (training v) wav = Inr out \<and>
     loss_fn env out t = Inr loss \<and> argmax env out = Inr pr \<and> batch_accuracy pr t = Inl e
       \<longrightarrow> validate_step env device (wav, t) v = Inl e) \<and>
    (train_step env device (wav, t) v = (Inr (l, f), v')
       \<longrightarrow> tensor_to env device = None \<and>
           (\<exists>out loss o1 o2 o3 p3 pr.
              forward env (params v) (training v) wav = Inr out \<and>
              loss_fn env out t = Inr loss \<and> zero_grad env (optimizer v) = Inr o1 \<and>
              backward env loss o1 = Inr o2 \<and> step env o2 (params v) = Inr (o3, p3) \<and>
              argmax env out = Inr pr \<and> batch_accuracy pr t = Inr f \<and>
              l = item env loss \<and> v' = v\<lparr>optimizer := o3, params := p3\<rparr>)) \<and>
    (validate_step env device (wav, t) v = Inr (l, f)
       \<longrightarrow> tensor_to env device = None \<and>
           (\<exists>out loss pr.
              forward env (params v) (training v) wav = Inr out \<and>
              loss_fn env out t = Inr loss \<and> argmax env out = Inr pr \<and>
              batch_accuracy pr t = Inr f \<and> l = item env loss))"
proof -
  have body: "train env dl device epochs tdl w = (Inl e, w')"
    if "epoch_body env dl device tdl k (h, wk) = (Inl e, h', w')"
    using train_raise_in_epoch [OF assms that] .
  have training_side: "train env dl device epochs tdl w = (Inl e, wx)"
    if "dl = pre @ b # post"
      and "train_batches env device pre (0, 0, 0) (wk\<lparr>training := True\<rparr>) = (Inr totals, wb)"
      and "train_step env device b wb = (Inl e, wx)"
  proof -
    from train_epoch_raise [OF that(2,3), of post] that(1)
    have "train_epoch env dl device wk = (Inl e, wx)" by simp
    then have "epoch_body env dl device tdl k (h, wk) = (Inl e, h, wx)"
      by (simp add: epoch_body_def training_part_def)
    from train_raise_in_epoch [OF assms this] show ?thesis .
  qed
  have testing_side: "train env dl device epochs tdl w = (Inl e, w1\<lparr>training := False\<rparr>)"
    if "training_part env dl device k (h, wk) = (Inr (), h1, w1)"
      and "tdl = Some (vpre @ vb # vpost)"
      and "validate_batches env device vpre (0, 0, 0)
             (w1\<lparr>training := False, grad_enabled := False\<rparr>) = Inr vtotals"
      and "validate_step env device vb (w1\<lparr>training := False, grad_enabled := False\<rparr>) = Inl e"
  proof -
    from validate_epoch_raise [OF that(3,4), of vpost]
    have "testing_part env (vpre @ vb # vpost) device k (h1, w1) =
            (Inl e, h1, w1\<lparr>training := False\<rparr>)"
      by (simp add: testing_part_def)
    with that(1,2)
    have "epoch_body env dl device tdl k (h, wk) = (Inl e, h1, w1\<lparr>training := False\<rparr>)"
      by (simp add: epoch_body_def truthy_def)
    from train_raise_in_epoch [OF assms this] show ?thesis .
  qed
  have c1:
    "epoch_body env dl device tdl k (h, wk) = (Inl e, h', w')
       \<longrightarrow> train env dl device epochs tdl w = (Inl e, w')"
    using body by blast
  have c2:
    "dl = pre @ b # post \<and>
     train_batches env device pre (0, 0, 0) (wk\<lparr>training := True\<rparr>) = (Inr totals, wb) \<and>
     train_step env device b wb = (Inl e, wx)
       \<longrightarrow> train env dl device epochs tdl w = (Inl e, wx)"
    using training_side by blast
  have c3:
    "training_part env dl device k (h, wk) = (Inr (), h1, w1) \<and>
     tdl = Some (vpre @ vb # vpost) \<and>
     validate_batches env device vpre (0, 0, 0)
       (w1\<lparr>training := False, grad_enabled := False\<rparr>) = Inr vtotals \<and>
     validate_step env device vb (w1\<lparr>training := False, grad_enabled := False\<rparr>) = Inl e
       \<longrightarrow> train env dl device epochs tdl w = (Inl e, w1\<lparr>training := False\<rparr>)"
    using testing_side by blast
  have c4:
    "tensor_to env device = Some e
       \<longrightarrow> train_step env device (wav, t) v = (Inl e, v) \<and>
           validate_step env device (wav, t) v = Inl e"
    by (simp add: train_step_def validate_step_def)
  have c5:
    "tensor_to env device = None \<and> forward env (params v) (training v) wav = Inl e
       \<longrightarrow> train_step env device (wav, t) v = (Inl e, v) \<and>
           validate_step env device (wav, t) v = Inl e"
    by (simp add: train_step_def validate_step_def)
  have c6:
    "tensor_to env device = None \<and> forward env (params v) (training v) wav = Inr out \<and>
     loss_fn env out t = Inl e
       \<longrightarrow> train_step env device (wav, t) v = (Inl e, v) \<and>
           validate_step env device (wav, t) v = Inl e"
    by (simp add: train_step_def validate_step_def)
  have c7:
    "tensor_to env device = None \<and> forward env (params v) (training v) wav = Inr out \<and>
     loss_fn env out t = Inr loss \<and> zero_grad env (optimizer v) = Inl e
       \<longrightarrow> train_step env device (wav, t) v = (Inl e, v)"
    by (simp add: train_step_def validate_step_def)
  have c8:
    "tensor_to env device = None \<and> forward env (params v) (training v) wav = Inr out \<and>
     loss_fn env out t = Inr loss \<and> zero_grad env (optimizer v) = Inr o1 \<and>
     backward env loss o1 = Inl e
       \<longrightarrow> train_step env device (wav, t) v = (Inl e, v\<lparr>optimizer := o1\<rparr>)"
    by (simp add: train_step_def validate_step_def)
  have c9:
    "tensor_to env device = None \<and> forward env (params v) (training v) wav = Inr out \<and>
     loss_fn env out t = Inr loss \<and> zero_grad env (optimizer v) = Inr o1 \<and>
     backward env loss o1 = Inr o2 \<and> step env o2 (params v) = Inl e
       \<longrightarrow> train_step env device (wav, t) v = (Inl e, v\<lparr>optimizer := o2\<rparr>)"
    by (simp add: train_step_def validate_step_def)
  have c10:
    "tensor_to env device = None \<and> forward env (params v) (training v) wav = Inr out \<and>
     loss_fn env out t = Inr loss \<and> zero_grad env (optimizer v) = Inr o1 \<and>
     backward env loss o1 = Inr o2 \<and> step env o2 (params v) = Inr (o3, p3) \<and>
     argmax env out = Inl e
       \<longrightarrow> train_step env device (wav, t) v = (Inl e, v\<lparr>optimizer := o3, params := p3\<rparr>)"
    by (simp add: train_step_def validate_step_def)
  have c11:
    "tensor_to env device = None \<and> forward env (params v) (training v) wav = Inr out \<and>
     loss_fn env out t = Inr loss \<and> zero_grad env (optimizer v) = Inr o1 \<and>
     backward env loss o1 = Inr o2 \<and> step env o2 (params v) = Inr (o3, p3) \<and>
     argmax env out = Inr pr \<and> batch_accuracy pr t = Inl e
       \<longrightarrow> train_step env device (wav, t) v = (Inl e, v\<lparr>optimizer := o3, params := p3\<rparr>)"
    by (simp add: train_step_def validate_step_def)
  have c12:
    "tensor_to env device = None \<and> forward env (params v) (training v) wav = Inr out \<and>
     loss_fn env out t = Inr loss \<and> argmax env out = Inl e
       \<longrightarrow> validate_step env device (wav, t) v = Inl e"
    by (simp add: train_step_def validate_step_def)
  have c13:
    "tensor_to env device = None \<and> forward env (params v) (training v) wav = Inr out \<and>
     loss_fn env out t = Inr loss \<and> argmax env out = Inr pr \<and> batch_accuracy pr t = Inl e
       \<longrightarrow> validate_step env device (wav, t) v = Inl e"
    by (simp add: train_step_def validate_step_def)
  have c14:
    "train_step env device (wav, t) v = (Inr (l, f), v')
       \<longrightarrow> tensor_to env device = None \<and>
           (\<exists>out loss o1 o2 o3 p3 pr.
              forward env (params v) (training v) wav = Inr out \<and>
              loss_fn env out t = Inr loss \<and> zero_grad env (optimizer v) = Inr o1 \<and>
              backward env loss o1 = Inr o2 \<and> step env o2 (params v) = Inr (o3, p3) \<and>
              argmax env out = Inr pr \<and> batch_accuracy pr t = Inr f \<and>
              l = item env loss \<and> v' = v\<lparr>optimizer := o3, params := p3\<rparr>)"
    using train_step_returns [of env device wav t v l f v'] by blast
  have c15:
    "validate_step env device (wav, t) v = Inr (l, f)
       \<longrightarrow> tensor_to env device = None \<and>
           (\<exists>out loss pr.
              forward env (params v) (training v) wav = Inr out \<and>
              loss_fn env out t = Inr loss \<and> argmax env out = Inr pr \<and>
              batch_accuracy pr t = Inr f \<and> l = item env loss)"
    using validate_step_returns [of env device wav t v l f] by blast
  show ?thesis
    by (intro conjI c1 c2 c3 c4 c5 c6 c7 c8 c9 c10 c11 c12 c13 c14 c15)
qed

text \<open>
  Four runs: the optimizer's \<open>step\<close> raises in the second batch of the second epoch; the
  model raises in the second validation batch; the move to the device raises in the first
  batch; and the accuracy line divides by zero on a batch without examples.
\<close>

theorem exceptions_propagate_witness:
  "train_loop fragile scenario () None [0..<1] (empty_history, fresh) =
     (Inr (), \<lparr>training_acc = [1 / 2], training_loss = [5 / 2], testing_acc = [],
               testing_loss = []\<rparr>,
      \<lparr>params = 4, training = True, optimizer = 1, grad_enabled = True,
       wandb_log = [[(''training_loss'', 5 / 2), (''training_acc'', 1 / 2)]]\<rparr>) \<and>
   1 < nat 3 \<and>
   scenario = [((1, [0, 0]), [0, 0])] @ ((2, [0, 1]), [0, 0]) #
                [((3, [1, 0]), [0, 0]), ((4, [1, 1]), [0, 0])] \<and>
   step fragile 1 5 = Inl (Raised ''step'') \<and>
   train_step fragile () ((2, [0, 1]), [0, 0])
     \<lparr>params = 5, training = True, optimizer = 1, grad_enabled = True,
      wandb_log = [[(''training_loss'', 5 / 2), (''training_acc'', 1 / 2)]]\<rparr> =
     (Inl (Raised ''step''),
      \<lparr>params = 5, training = True, optimizer = 1, grad_enabled = True,
       wandb_log = [[(''training_loss'', 5 / 2), (''training_acc'', 1 / 2)]]\<rparr>) \<and>
   train fragile scenario () 3 None fresh =
     (Inl (Raised ''step''),
      \<lparr>params = 5, training = True, optimizer = 1, grad_enabled = True,
       wandb_log = [[(''training_loss'', 5 / 2), (''training_acc'', 1 / 2)]]\<rparr>) \<and>
   training_part replay scenario () 0 (empty_history, fresh) =
     (Inr (), \<lparr>training_acc = [1 / 2], training_loss = [5 / 2], testing_acc = [],
               testing_loss = []\<rparr>,
      \<lparr>params = 4, training = True, optimizer = 1, grad_enabled = True,
       wandb_log = [[(''training_loss'', 5 / 2), (''training_acc'', 1 / 2)]]\<rparr>) \<and>
   forward replay 4 False (- 1, [0, 0]) = Inl (Raised ''forward'') \<and>
   train replay scenario () 1 (Some flawed) fresh =
     (Inl (Raised ''forward''),
      \<lparr>params = 4, training = True, optimizer = 1, grad_enabled = True,
       wandb_log = [[(''training_loss'', 5 / 2), (''training_acc'', 1 / 2)]]\<rparr>
      \<lparr>training := False\<rparr>) \<and>
   tensor_to (replay\<lparr>tensor_to := \<lambda>d. Some (Raised ''device'')\<rparr>) () =
     Some (Raised ''device'') \<and>
   train (replay\<lparr>tensor_to := \<lambda>d. Some (Raised ''device'')\<rparr>) scenario () 1 None fresh =
     (Inl (Raised ''device''), fresh) \<and>
   batch_accuracy [] [] = Inl ZeroDivisionError \<and>
   train replay [((1, []), [])] () 1 None fresh =
     (Inl ZeroDivisionError, fresh\<lparr>optimizer := 1, params := 1\<rparr>) \<and>
   train_step replay () ((1, [0, 0]), [0, 0]) fresh =
     (Inr (1, 1), fresh\<lparr>optimizer := 1, params := 1\<rparr>) \<and>
   tensor_to replay () = None"
proof -
  let ?h = "\<lparr>training_acc = [1 / 2], training_loss = [5 / 2], testing_acc = [],
               testing_loss = []\<rparr>"
  let ?wk = "\<lparr>params = 4 :: int, training = True, optimizer = 1 :: int, grad_enabled = True,
       wandb_log = [[(''training_loss'', 5 / 2), (''training_acc'', 1 / 2)]]\<rparr>"
  let ?wb = "\<lparr>params = 5 :: int, training = True, optimizer = 1 :: int, grad_enabled = True,
       wandb_log = [[(''training_loss'', 5 / 2), (''training_acc'', 1 / 2)]]\<rparr>"
  let ?dev = "replay\<lparr>tensor_to := \<lambda>d. Some (Raised ''device'')\<rparr>"
  let ?b1 = "((1, [0, 0]), [0, 0]) :: (real \<times> int list) batch"
  let ?rest = "[((2, [0, 1]), [0, 0]), ((3, [1, 0]), [0, 0]), ((4, [1, 1]), [0, 0])]
                 :: (real \<times> int list) dataloader"
  have k3: "1 < nat 3" and k1: "0 < nat 1"
    by simp_all
  have loop0: "train_loop env dl () tdl [0..<0] (empty_history, fresh) =
      (Inr (), empty_history, fresh)" for env :: "(real \<times> int list, real \<times> int list, real, int, int, unit) torch" and dl tdl
    by simp
  have split: "scenario = [((1, [0, 0]), [0, 0])] @ ((2, [0, 1]), [0, 0]) #
                [((3, [1, 0]), [0, 0]), ((4, [1, 1]), [0, 0])]"
    by (simp add: scenario_def)
  have pre: "train_batches fragile () [((1, [0, 0]), [0, 0])] (0, 0, 0) (?wk\<lparr>training := True\<rparr>) =
      (Inr (1, 1, 1), ?wb)"
    by (simp add: fragile_step scenario_accuracies)
  have bad: "train_step fragile () ((2, [0, 1]), [0, 0]) ?wb = (Inl (Raised ''step''), ?wb)"
    by (simp add: fragile_step)
  have st: "step fragile 1 5 = Inl (Raised ''step'')"
    by (simp add: fragile_def)
  note iA = exceptions_propagate [where env = fragile and dl = scenario and device = "()"
        and tdl = None
        and k = 1 and w = fresh and h = ?h and wk = ?wk and epochs = 3
        and pre = "[((1, [0, 0]), [0, 0])]" and b = "((2, [0, 1]), [0, 0])"
        and post = "[((3, [1, 0]), [0, 0]), ((4, [1, 1]), [0, 0])]"
        and totals = "(1, 1, 1)" and wb = ?wb and e = "Raised ''step''" and wx = ?wb,
        OF fragile_first_epoch k3]
  have a: "train fragile scenario () 3 None fresh = (Inl (Raised ''step''), ?wb)"
    by (rule iA [THEN conjunct2, THEN conjunct1, THEN mp]) (intro conjI split pre bad)
  have tp: "training_part replay scenario () 0 (empty_history, fresh) = (Inr (), ?h, ?wk)"
    by (simp add: training_part_def replay_train_scenario py_truediv_def py_index_def
          empty_history_def scenario_length fresh_def)
  have fl: "Some flawed = Some ([((1, [0, 0]), [0, 0])] @ ((- 1, [0, 0]), [0, 0]) #
                [((3, [1, 0]), [0, 0])])"
    by (simp add: flawed_def)
  have vpre: "validate_batches replay () [((1, [0, 0]), [0, 0])] (0, 0, 0)
       (?wk\<lparr>training := False, grad_enabled := False\<rparr>) = Inr (1, 1, 1)"
    by (simp add: replay_validate_step scenario_accuracies)
  have vbad: "validate_step replay () ((- 1, [0, 0]), [0, 0])
       (?wk\<lparr>training := False, grad_enabled := False\<rparr>) = Inl (Raised ''forward'')"
    by (simp add: validate_step_def replay_def)
  have fw: "forward replay 4 False (- 1, [0, 0]) = Inl (Raised ''forward'')"
    by (simp add: replay_def)
  note iB = exceptions_propagate [where env = replay and dl = scenario and device = "()"
        and tdl = "Some flawed"
        and k = 0 and w = fresh and h = empty_history and wk = fresh and epochs = 1
        and ?h1.0 = ?h and ?w1.0 = ?wk and vpre = "[((1, [0, 0]), [0, 0])]"
        and vb = "((- 1, [0, 0]), [0, 0])" and vpost = "[((3, [1, 0]), [0, 0])]"
        and vtotals = "(1, 1, 1)" and e = "Raised ''forward''", OF loop0 k1]
  have b: "train replay scenario () 1 (Some flawed) fresh =
     (Inl (Raised ''forward''), ?wk\<lparr>training := False\<rparr>)"
    by (rule iB [THEN conjunct2, THEN conjunct2, THEN conjunct1, THEN mp])
       (intro conjI tp fl vpre vbad)
  have dv: "tensor_to ?dev () = Some (Raised ''device'')"
    by simp
  note iC = exceptions_propagate [where env = ?dev and dl = scenario and device = "()"
        and tdl = None
        and k = 0 and w = fresh and h = empty_history and wk = fresh and epochs = 1
        and pre = "[]" and b = ?b1 and post = ?rest
        and totals = "(0, 0, 0)" and wb = "fresh\<lparr>training := True\<rparr>"
        and e = "Raised ''device''" and wx = "fresh\<lparr>training := True\<rparr>"
        and wav = "(1, [0, 0])" and t = "[0, 0]" and v = "fresh\<lparr>training := True\<rparr>",
        OF loop0 k1]
  have cstep: "train_step ?dev () ?b1 (fresh\<lparr>training := True\<rparr>) =
      (Inl (Raised ''device''), fresh\<lparr>training := True\<rparr>)"
    by (rule iC [THEN conjunct2, THEN conjunct2, THEN conjunct2, THEN conjunct1, THEN mp,
          THEN conjunct1]) (rule dv)
  have csplit: "scenario = [] @ ?b1 # ?rest"
    by (simp add: scenario_def)
  have cpre: "train_batches ?dev () [] (0, 0, 0) (fresh\<lparr>training := True\<rparr>) =
      (Inr (0, 0, 0), fresh\<lparr>training := True\<rparr>)"
    by simp
  have "train ?dev scenario () 1 None fresh = (Inl (Raised ''device''), fresh\<lparr>training := True\<rparr>)"
    by (rule iC [THEN conjunct2, THEN conjunct1, THEN mp]) (intro conjI csplit cpre cstep)
  then have c: "train ?dev scenario () 1 None fresh = (Inl (Raised ''device''), fresh)"
    by (simp add: fresh_def)
  have ba: "batch_accuracy [] [] = Inl ZeroDivisionError"
    by (simp add: batch_accuracy_def eq_sum_def correct_def py_truediv_def)
  have dstep: "train_step replay () ((1, []), []) (fresh\<lparr>training := True\<rparr>) =
        (Inl ZeroDivisionError, fresh\<lparr>optimizer := 1, params := 1\<rparr>)"
    by (simp add: replay_step ba fresh_def)
  have dsplit: "[((1, []), [])] = [] @ ((1, []), []) # ([] :: (real \<times> int list) dataloader)"
    by simp
  have dpre: "train_batches replay () [] (0, 0, 0) (fresh\<lparr>training := True\<rparr>) =
      (Inr (0, 0, 0), fresh\<lparr>training := True\<rparr>)"
    by simp
  note iD = exceptions_propagate [where env = replay and dl = "[((1, []), [])]"
        and device = "()" and tdl = None
        and k = 0 and w = fresh and h = empty_history and wk = fresh and epochs = 1
        and pre = "[]" and b = "((1, []), [])" and post = "[]"
        and totals = "(0, 0, 0)" and wb = "fresh\<lparr>training := True\<rparr>"
        and e = ZeroDivisionError
        and wx = "fresh\<lparr>optimizer := 1, params := 1\<rparr>", OF loop0 k1]
  have d: "train replay [((1, []), [])] () 1 None fresh =
     (Inl ZeroDivisionError, fresh\<lparr>optimizer := 1, params := 1\<rparr>)"
    by (rule iD [THEN conjunct2, THEN conjunct1, THEN mp]) (intro conjI dsplit dpre dstep)
  have ok: "train_step replay () ((1, [0, 0]), [0, 0]) fresh =
     (Inr (1, 1), fresh\<lparr>optimizer := 1, params := 1\<rparr>)"
    by (simp add: replay_step scenario_accuracies fresh_def)
  note iE = exceptions_propagate [where env = replay and dl = scenario and device = "()"
        and tdl = None
        and k = 0 and w = fresh and h = empty_history and wk = fresh and epochs = 1
        and wav = "(1, [0, 0])" and t = "[0, 0]" and v = fresh and l = 1 and f = 1
        and v' = "fresh\<lparr>optimizer := 1, params := 1\<rparr>", OF loop0 k1]
  have r: "tensor_to replay () = None"
    by (rule iE [THEN conjunct2, THEN conjunct2, THEN conjunct2, THEN conjunct2,
          THEN conjunct2, THEN conjunct2, THEN conjunct2, THEN conjunct2, THEN conjunct2,
          THEN conjunct2, THEN conjunct2, THEN conjunct2, THEN conjunct2, THEN conjunct1,
          THEN mp, THEN conjunct1]) (rule ok)
  show ?thesis
    by (intro conjI fragile_first_epoch k3 split st bad a tp fw b dv c ba d ok r)
qed

end
